theory Spec2Isabelle
  imports Main "HOL-Library.Char_ord" "HOL-Library.List_Lexorder"
begin

section \<open>Python values and exceptions\<close>

text \<open>
  The values a YAML document or a caller can hand to the configuration code: \<open>None\<close>,
  booleans, integers, strings, lists and dictionaries. A dictionary is an association
  list in iteration order; the code only ever looks a dictionary up under a string key,
  so keys are strings.
\<close>

datatype pyval =
    PNone
  | PBool bool
  | PInt int
  | PStr string
  | PList "pyval list"
  | PDict "(string \<times> pyval) list"

text \<open>
  The argument of \<open>SystemExit\<close>: an integer status (\<open>sys.exit(1)\<close>) or a message
  (\<open>raise SystemExit('...')\<close>).
\<close>

datatype exit_arg = Status nat | Message string

text \<open>
  Exceptions. \<open>KeyError\<close> carries its message, \<open>External\<close> is an exception raised by
  the operating system or a library (PyYAML, getpass, pika) with its text.
\<close>

datatype error =
    KeyError string
  | TypeError
  | AttributeError
  | IndexError
  | External string
  | SystemExit exit_arg

section \<open>The settings store: class \<open>Config\<close>\<close>

text \<open>\<open>DEFAULT_CONFIG\<close>; \<open>ver\<close> is \<open>sorted(SSL_PROTOCOLS.keys())[-1]\<close>, which the
  interpreter's \<open>ssl\<close> module decides.\<close>

definition DEFAULT_CONFIG :: "string \<Rightarrow> (string \<times> pyval) list" where
  "DEFAULT_CONFIG ver =
    [(''auth.password'', PNone),
     (''auth.username'', PNone),
     (''conn.host'', PStr ''localhost''),
     (''conn.port'', PInt 5672),
     (''conn.vhost'', PStr ''/''),
     (''ssl.ciphers'', PList []),
     (''ssl.enable'', PBool True),
     (''ssl.version'', PStr ver),
     (''logging.level'', PStr ''INFO'')]"

text \<open>An instance: \<open>self._defaults\<close> and \<open>self._settings\<close>.\<close>

record Config =
  defaults :: "(string \<times> pyval) list"
  settings :: "string \<rightharpoonup> pyval"

text \<open>\<open>Config.__getitem__\<close>\<close>

definition Config_getitem :: "Config \<Rightarrow> string \<Rightarrow> error + pyval" where
  "Config_getitem self item =
    (case map_of (defaults self) item of
       None \<Rightarrow> Inl (KeyError (''No setting '' @ item))
     | Some d \<Rightarrow> Inr (case settings self item of None \<Rightarrow> d | Some v \<Rightarrow> v))"

text \<open>\<open>Config.__setitem__\<close>: the exception raised, if any, and the instance afterwards.\<close>

definition Config_setitem :: "string \<Rightarrow> pyval \<Rightarrow> Config \<Rightarrow> error option \<times> Config" where
  "Config_setitem item v self =
    (case map_of (defaults self) item of
       None \<Rightarrow> (Some (KeyError (''No setting '' @ item)), self)
     | Some d \<Rightarrow> (None, self\<lparr>settings := (settings self)(item \<mapsto> v)\<rparr>))"

text \<open>\<open>Config.__delitem__\<close>\<close>

definition Config_delitem :: "string \<Rightarrow> Config \<Rightarrow> error option \<times> Config" where
  "Config_delitem item self =
    (case map_of (defaults self) item of
       None \<Rightarrow> (Some (KeyError (''No setting '' @ item)), self)
     | Some d \<Rightarrow>
        (case settings self item of
           None \<Rightarrow> (Some (KeyError (item @ '' not set'')), self)
         | Some v \<Rightarrow> (None, self\<lparr>settings := (settings self)(item := None)\<rparr>)))"

text \<open>\<open>Config.__iter__\<close> and \<open>Config.__len__\<close>\<close>

definition Config_iter :: "Config \<Rightarrow> string list" where
  "Config_iter self = sort (map fst (defaults self))"

definition Config_len :: "Config \<Rightarrow> nat" where
  "Config_len self = length (defaults self)"

text \<open>
  \<open>MutableMapping.update\<close> with a dictionary: \<open>for key in other: self[key] = other[key]\<close>;
  the first exception ends the loop.
\<close>

fun Config_update :: "(string \<times> pyval) list \<Rightarrow> Config \<Rightarrow> error option \<times> Config" where
  "Config_update [] self = (None, self)"
| "Config_update ((k, v) # kvs) self =
    (case Config_setitem k v self of
       (Some e, self') \<Rightarrow> (Some e, self')
     | (None, self') \<Rightarrow> Config_update kvs self')"

text \<open>
  \<open>Config.__init__\<close>, called with the dictionary \<open>dict(*args, **kwargs)\<close>: an exception
  leaves the caller without an instance.
\<close>

definition Config_init :: "string \<Rightarrow> (string \<times> pyval) list \<Rightarrow> error + Config" where
  "Config_init ver init =
    (case Config_update init \<lparr>defaults = DEFAULT_CONFIG ver, settings = Map.empty\<rparr> of
       (Some e, self) \<Rightarrow> Inl e
     | (None, self) \<Rightarrow> Inr self)"

text \<open>\<open>Config()\<close>: every setting at its default.\<close>

definition Config_fresh :: "string \<Rightarrow> Config" where
  "Config_fresh ver = \<lparr>defaults = DEFAULT_CONFIG ver, settings = Map.empty\<rparr>"

text \<open>The closed set of setting names.\<close>

definition schema_keys :: "string list" where
  "schema_keys =
    [''auth.password'', ''auth.username'', ''conn.host'', ''conn.port'', ''conn.vhost'',
     ''ssl.ciphers'', ''ssl.enable'', ''ssl.version'', ''logging.level'']"

section \<open>The class \<open>IniConfig\<close>\<close>

text \<open>The types named in \<open>IniConfig.VALUES\<close>, and the table itself.\<close>

datatype ini_type = TStr | TInt | TBool

definition IniConfig_VALUES :: "string \<Rightarrow> ((string \<times> string) \<times> (pyval \<times> ini_type)) list" where
  "IniConfig_VALUES ver =
    [((''auth'', ''password''), (PNone, TStr)),
     ((''auth'', ''username''), (PNone, TStr)),
     ((''conn'', ''host''), (PStr ''localhost'', TStr)),
     ((''conn'', ''port''), (PInt 5672, TInt)),
     ((''conn'', ''vhost''), (PStr ''/'', TStr)),
     ((''ssl'', ''ciphers''), (PStr [], TStr)),
     ((''ssl'', ''enable''), (PBool True, TBool)),
     ((''ssl'', ''version''), (PStr ver, TStr)),
     ((''logging'', ''level''), (PStr ''INFO'', TStr))]"

text \<open>
  \<open>IniConfig.__init__\<close>: \<open>self.config = None\<close>, then the loop over \<open>VALUES\<close>, whose
  first step asks \<open>None\<close> for its attribute \<open>has_section\<close>.
\<close>

definition IniConfig_init :: "string \<Rightarrow> error option" where
  "IniConfig_init ver =
    (case IniConfig_VALUES ver of
       [] \<Rightarrow> None
     | k # ks \<Rightarrow> Some AttributeError)"

section \<open>Strings and dictionaries\<close>

text \<open>\<open>s.split(sep)\<close> for a one-character separator: never the empty list.\<close>

fun str_split :: "char \<Rightarrow> string \<Rightarrow> string list" where
  "str_split sep [] = [[]]"
| "str_split sep (c # cs) =
    (if c = sep then [] # str_split sep cs
     else (case str_split sep cs of [] \<Rightarrow> [[c]] | p # ps \<Rightarrow> (c # p) # ps))"

text \<open>\<open>k in s\<close> for strings: \<open>k\<close> occurs in \<open>s\<close> as a substring.\<close>

fun starts_with :: "string \<Rightarrow> string \<Rightarrow> bool" where
  "starts_with [] s = True"
| "starts_with (k # ks) [] = False"
| "starts_with (k # ks) (c # cs) = (k = c \<and> starts_with ks cs)"

fun substring :: "string \<Rightarrow> string \<Rightarrow> bool" where
  "substring k [] = (k = [])"
| "substring k (c # cs) = (starts_with k (c # cs) \<or> substring k cs)"

text \<open>\<open>isinstance(v, dict)\<close>\<close>

fun is_dict :: "pyval \<Rightarrow> bool" where
  "is_dict (PDict d) = True"
| "is_dict v = False"

text \<open>\<open>t.get(p, dict())\<close> and \<open>t.setdefault(p, OrderedDict())\<close> return the same value;
  an object that is no dictionary has neither method.\<close>

fun py_get :: "pyval \<Rightarrow> string \<Rightarrow> error + pyval" where
  "py_get (PDict d) p = Inr (case map_of d p of None \<Rightarrow> PDict [] | Some v \<Rightarrow> v)"
| "py_get t p = Inl AttributeError"

text \<open>\<open>k in t\<close> for a string \<open>k\<close>: membership of a key, of a substring, of an element;
  \<open>None\<close>, booleans and integers are not iterable.\<close>

fun py_contains :: "string \<Rightarrow> pyval \<Rightarrow> error + bool" where
  "py_contains k (PDict d) = Inr (k \<in> set (map fst d))"
| "py_contains k (PStr s) = Inr (substring k s)"
| "py_contains k (PList xs) = Inr (PStr k \<in> set xs)"
| "py_contains k t = Inl TypeError"

text \<open>\<open>t[k]\<close> for a string \<open>k\<close>: strings and lists take integer indices only.\<close>

fun py_getitem :: "pyval \<Rightarrow> string \<Rightarrow> error + pyval" where
  "py_getitem (PDict d) k =
    (case map_of d k of None \<Rightarrow> Inl (KeyError k) | Some v \<Rightarrow> Inr v)"
| "py_getitem t k = Inl TypeError"

text \<open>\<open>d[k] = v\<close> on an ordered dictionary: a present key keeps its place, a new one
  goes last.\<close>

fun dict_set :: "string \<Rightarrow> pyval \<Rightarrow> (string \<times> pyval) list \<Rightarrow> (string \<times> pyval) list" where
  "dict_set k v [] = [(k, v)]"
| "dict_set k v ((k', v') # d) =
    (if k' = k then (k, v) # d else (k', v') # dict_set k v d)"

text \<open>\<open>t[k] = v\<close> for a string \<open>k\<close>\<close>

fun py_setitem :: "string \<Rightarrow> pyval \<Rightarrow> pyval \<Rightarrow> error + pyval" where
  "py_setitem k v (PDict d) = Inr (PDict (dict_set k v d))"
| "py_setitem k v t = Inl TypeError"

text \<open>The loop \<open>for p in parts[:-1]: t = t.get(p, dict())\<close>, and the value of \<open>t\<close>
  after it.\<close>

fun dict_walk :: "string list \<Rightarrow> pyval \<Rightarrow> error + pyval" where
  "dict_walk [] t = Inr t"
| "dict_walk (p # ps) t =
    (case py_get t p of Inl e \<Rightarrow> Inl e | Inr t' \<Rightarrow> dict_walk ps t')"

text \<open>
  The dictionary \<open>dump\<close> after \<open>t = dump\<close>, the loop
  \<open>for p in parts[:-1]: t = t.setdefault(p, OrderedDict())\<close> and \<open>t[last] = v\<close>: the
  dictionaries on the path are shared objects, so the assignment shows in \<open>dump\<close>.
\<close>

fun set_path :: "string list \<Rightarrow> string \<Rightarrow> pyval \<Rightarrow> pyval \<Rightarrow> error + pyval" where
  "set_path [] l v t = py_setitem l v t"
| "set_path (p # ps) l v t =
    (case py_get t p of
       Inl e \<Rightarrow> Inl e
     | Inr t' \<Rightarrow>
        (case set_path ps l v t' of
           Inl e \<Rightarrow> Inl e
         | Inr t'' \<Rightarrow> py_setitem p t'' t))"

section \<open>Loading and dumping nested dictionaries\<close>

text \<open>The body of the loop of \<open>Config.load_dict\<close> for one \<open>key\<close>.\<close>

definition load_key :: "pyval \<Rightarrow> string \<Rightarrow> Config \<Rightarrow> error option \<times> Config" where
  "load_key dict_value key self =
    (case rev (str_split CHR ''.'' key) of
       [] \<Rightarrow> (Some IndexError, self)
     | l # ps \<Rightarrow>
        (case dict_walk (rev ps) dict_value of
           Inl e \<Rightarrow> (Some e, self)
         | Inr t \<Rightarrow>
            (case py_contains l t of
               Inl e \<Rightarrow> (Some e, self)
             | Inr False \<Rightarrow> (None, self)
             | Inr True \<Rightarrow>
                (case py_getitem t l of
                   Inl e \<Rightarrow> (Some e, self)
                 | Inr v \<Rightarrow> Config_setitem key v self))))"

fun load_keys :: "pyval \<Rightarrow> string list \<Rightarrow> Config \<Rightarrow> error option \<times> Config" where
  "load_keys dict_value [] self = (None, self)"
| "load_keys dict_value (key # keys) self =
    (case load_key dict_value key self of
       (Some e, self') \<Rightarrow> (Some e, self')
     | (None, self') \<Rightarrow> load_keys dict_value keys self')"

text \<open>\<open>Config.load_dict\<close>\<close>

definition load_dict :: "pyval \<Rightarrow> Config \<Rightarrow> error option \<times> Config" where
  "load_dict dict_value self = load_keys dict_value (Config_iter self) self"

text \<open>The loop of \<open>Config.dump_dict\<close>, from the dictionary built so far.\<close>

fun dump_keys :: "Config \<Rightarrow> string list \<Rightarrow> pyval \<Rightarrow> error + pyval" where
  "dump_keys self [] dump = Inr dump"
| "dump_keys self (key # keys) dump =
    (case rev (str_split CHR ''.'' key) of
       [] \<Rightarrow> Inl IndexError
     | l # ps \<Rightarrow>
        (case dict_walk (rev ps) dump of
           Inl e \<Rightarrow> Inl e
         | Inr t \<Rightarrow>
            (case Config_getitem self key of
               Inl e \<Rightarrow> Inl e
             | Inr v \<Rightarrow>
                (case set_path (rev ps) l v dump of
                   Inl e \<Rightarrow> Inl e
                 | Inr dump' \<Rightarrow> dump_keys self keys dump'))))"

text \<open>\<open>Config.dump_dict\<close>\<close>

definition dump_dict :: "Config \<Rightarrow> error + pyval" where
  "dump_dict self = dump_keys self (Config_iter self) (PDict [])"

text \<open>
  What a nested source says about a setting \<open>section.option\<close>: the value at
  \<open>source[section][option]\<close>, if the source has that leaf.
\<close>

definition source_value :: "pyval \<Rightarrow> string \<Rightarrow> pyval option" where
  "source_value source key =
    (case str_split CHR ''.'' key of
       [section, opt] \<Rightarrow>
        (case source of
           PDict d \<Rightarrow>
            (case map_of d section of
               Some (PDict d') \<Rightarrow> map_of d' opt
             | _ \<Rightarrow> None)
         | _ \<Rightarrow> None)
     | _ \<Rightarrow> None)"

text \<open>The sections of the schema, and a nested-mapping source: a dictionary in which
  every section it has is a dictionary again.\<close>

definition schema_sections :: "string list" where
  "schema_sections = [''auth'', ''conn'', ''ssl'', ''logging'']"

definition nested_mapping :: "pyval \<Rightarrow> bool" where
  "nested_mapping source =
    (case source of
       PDict d \<Rightarrow>
        list_all (\<lambda>s. case map_of d s of None \<Rightarrow> True | Some v \<Rightarrow> is_dict v) schema_sections
     | _ \<Rightarrow> False)"

text \<open>
  The configuration merger applied to the dictionaries it has read: the successive
  \<open>config.load_dict(...)\<close> calls of \<open>get_config\<close> on one store, the first exception
  ending the run.
\<close>

fun load_dicts :: "pyval list \<Rightarrow> Config \<Rightarrow> error option \<times> Config" where
  "load_dicts [] config = (None, config)"
| "load_dicts (d # ds) config =
    (case load_dict d config of
       (Some e, config') \<Rightarrow> (Some e, config')
     | (None, config') \<Rightarrow> load_dicts ds config')"

section \<open>Configuration files: \<open>read_config\<close> and \<open>get_config\<close>\<close>

text \<open>
  What the file system and PyYAML answer for a path: no regular file there
  (\<open>os.path.isfile\<close> is false); a file that \<open>open\<close> fails on; a file on which
  \<open>yaml.load\<close> raises; a file on which \<open>yaml.load\<close> returns a value. The strings are
  the exceptions' texts.
\<close>

datatype file_entry =
    Absent
  | Unreadable string
  | Malformed string
  | Document pyval

fun isfile :: "file_entry \<Rightarrow> bool" where
  "isfile Absent = False"
| "isfile f = True"

text \<open>The surroundings of \<open>get_config\<close>: the newest SSL protocol name of the \<open>ssl\<close>
  module, \<open>DEFAULT_CONF_SYS\<close>, \<open>DEFAULT_CONF_USR\<close>, \<open>os.path.expanduser\<close> and the
  files.\<close>

record env =
  ssl_newest :: string
  conf_sys :: string
  conf_usr :: string
  expanduser :: "string \<Rightarrow> string"
  files :: "string \<Rightarrow> file_entry"

text \<open>\<open>read_config\<close>; the name may be \<open>None\<close>.\<close>

definition read_config :: "(string \<Rightarrow> file_entry) \<Rightarrow> string option \<Rightarrow> error + pyval" where
  "read_config fs filename =
    (case filename of
       None \<Rightarrow> Inr (PDict [])
     | Some name \<Rightarrow>
        if name \<noteq> [] \<and> isfile (fs name) then
          (case fs name of
             Absent \<Rightarrow> Inr (PDict [])
           | Unreadable msg \<Rightarrow> Inl (External msg)
           | Malformed msg \<Rightarrow> Inl (External msg)
           | Document v \<Rightarrow> if is_dict v then Inr v else Inr (PDict []))
        else Inr (PDict []))"

text \<open>The list \<open>configs\<close> of \<open>get_config\<close>.\<close>

definition config_paths :: "env \<Rightarrow> bool \<Rightarrow> bool \<Rightarrow> string option \<Rightarrow> string list" where
  "config_paths e ignore_sys ignore_user custom =
    (if \<not> ignore_sys then [conf_sys e] else []) @
    (if \<not> ignore_user then [conf_usr e] else []) @
    (case custom of None \<Rightarrow> [] | Some c \<Rightarrow> [expanduser e c])"

text \<open>The loop \<open>for path in configs\<close> of \<open>get_config\<close>.\<close>

fun load_paths :: "(string \<Rightarrow> file_entry) \<Rightarrow> string list \<Rightarrow> Config \<Rightarrow> error option \<times> Config" where
  "load_paths fs [] config = (None, config)"
| "load_paths fs (path # paths) config =
    (if isfile (fs path) then
       (case read_config fs (Some path) of
          Inl e \<Rightarrow> (Some e, config)
        | Inr d \<Rightarrow>
           (case load_dict d config of
              (Some e, config') \<Rightarrow> (Some e, config')
            | (None, config') \<Rightarrow> load_paths fs paths config'))
     else load_paths fs paths config)"

text \<open>\<open>get_config\<close>: the store, or the exception that leaves it.\<close>

definition get_config :: "env \<Rightarrow> bool \<Rightarrow> bool \<Rightarrow> string option \<Rightarrow> error + Config" where
  "get_config e ignore_sys ignore_user custom =
    (case Config_init (ssl_newest e) [] of
       Inl err \<Rightarrow> Inl err
     | Inr config \<Rightarrow>
        (case load_paths (files e) (config_paths e ignore_sys ignore_user custom) config of
           (Some err, config') \<Rightarrow> Inl err
         | (None, config') \<Rightarrow> Inr config'))"

text \<open>A file that is missing, or whose document has no mapping at the root.\<close>

fun no_mapping :: "file_entry \<Rightarrow> bool" where
  "no_mapping Absent = True"
| "no_mapping (Document v) = (\<not> is_dict v)"
| "no_mapping f = False"

section \<open>Credentials: \<open>get_creds\<close>\<close>

text \<open>The fields of the argparse namespace that \<open>get_creds\<close> reads; each is \<open>None\<close> or
  a string.\<close>

record args =
  username :: "string option"
  password :: "string option"
  password_file :: "string option"

text \<open>\<open>pika.PlainCredentials(username, password)\<close>\<close>

record credentials =
  cred_username :: "string option"
  cred_password :: "string option"

text \<open>Truth value of \<open>None\<close> or a string: \<open>None\<close> and \<open>''\<close> are false.\<close>

fun truthy :: "string option \<Rightarrow> bool" where
  "truthy None = False"
| "truthy (Some s) = (s \<noteq> [])"

text \<open>\<open>s.strip()\<close>: without leading and trailing blanks, tabs, line feeds, carriage
  returns, vertical tabs and form feeds.\<close>

definition is_space :: "char \<Rightarrow> bool" where
  "is_space c = (c \<in> set [CHR '' '', CHR 0x09, CHR 0x0A, CHR 0x0D, CHR 0x0B, CHR 0x0C])"

definition strip :: "string \<Rightarrow> string" where
  "strip s = rev (dropWhile is_space (rev (dropWhile is_space s)))"

text \<open>\<open>fp.readline()\<close> on a file just opened, from its contents: the first line with
  its line feed.\<close>

fun readline :: "string \<Rightarrow> string" where
  "readline [] = []"
| "readline (c # cs) = (if c = CHR 0x0A then [c] else c # readline cs)"

text \<open>
  The first statement of \<open>get_creds\<close>. \<open>opn path\<close> is what opening the file and reading
  a line do: the text of the exception raised, or the contents of the file. The result
  is the namespace afterwards.
\<close>

definition read_password_file :: "(string \<Rightarrow> string + string) \<Rightarrow> args \<Rightarrow> error + args" where
  "read_password_file opn a =
    (case password_file a of
       None \<Rightarrow> Inr a
     | Some path \<Rightarrow>
        if path = [] then Inr a
        else
          (case opn path of
             Inl msg \<Rightarrow> Inl (SystemExit (Message (''Unable to open password file: '' @ msg)))
           | Inr contents \<Rightarrow>
              (let passwd = readline contents in
               if strip passwd \<noteq> [] then Inr (a\<lparr>password := Some (strip passwd)\<rparr>)
               else Inr a)))"

text \<open>The last statement of \<open>get_creds\<close>.\<close>

definition plain_credentials :: "args \<Rightarrow> credentials option" where
  "plain_credentials a =
    (if truthy (username a) \<or> truthy (password a)
     then Some \<lparr>cred_username = username a, cred_password = password a\<rparr>
     else None)"

text \<open>
  \<open>get_creds\<close>. \<open>prompt\<close> is what \<open>getpass.getpass()\<close> does when it is called: the text
  of the exception it raises, or the password typed. The result is the value returned
  or the exception raised, and whether \<open>getpass.getpass()\<close> was called.
\<close>

definition get_creds ::
  "(string \<Rightarrow> string + string) \<Rightarrow> string + string \<Rightarrow> args \<Rightarrow> (error + credentials option) \<times> bool" where
  "get_creds opn prompt a =
    (case read_password_file opn a of
       Inl e \<Rightarrow> (Inl e, False)
     | Inr a' \<Rightarrow>
        if truthy (username a') \<and> \<not> truthy (password a') then
          (case prompt of
             Inl msg \<Rightarrow> (Inl (SystemExit (Message (''Prompt terminated: '' @ msg))), True)
           | Inr typed \<Rightarrow> (Inr (plain_credentials (a'\<lparr>password := Some typed\<rparr>)), True))
        else (Inr (plain_credentials a'), False))"

section \<open>The publisher\<close>

text \<open>\<open>str(n)\<close> for a natural number.\<close>

fun str_nat :: "nat \<Rightarrow> string" where
  "str_nat n =
    (if n < 10 then [''0123456789'' ! n]
     else str_nat (n div 10) @ [''0123456789'' ! (n mod 10)])"

text \<open>The type of \<open>frame.method\<close>, with the delivery tag where the code reads it.\<close>

datatype frame_method = SelectOk | Nack nat | Ack nat | OtherMethod

text \<open>\<open>confirm_callback\<close>: the lines printed and the exception raised.\<close>

fun confirm_callback :: "frame_method \<Rightarrow> string list \<times> error option" where
  "confirm_callback SelectOk = ([''The channel is now in confirm mode''], None)"
| "confirm_callback (Nack tag) =
    ([''Message '' @ str_nat tag @ '' lost!''], Some (SystemExit (Status 1)))"
| "confirm_callback (Ack tag) =
    ([''Message '' @ str_nat tag @ '' delivered!''], Some (SystemExit (Status 0)))"
| "confirm_callback OtherMethod = ([], None)"

text \<open>
  What the steps of the publisher's \<open>main\<close> meet: an exception before the publish
  (configuration, argument parsing, credentials, connecting, opening the channel), the
  exception or the boolean of \<open>channel.basic_publish\<close>, an exception of \<open>conn.close()\<close>.
\<close>

record publish_run =
  before_publish :: "error option"
  basic_publish :: "error + bool"
  conn_close :: "error option"

datatype log_event = LogInfo string | LogError string

text \<open>The publisher's \<open>main\<close>: what it prints and logs after \<open>Sending message...\<close>, and
  the exception that leaves it (\<open>None\<close> when it returns). No callback is registered on the
  channel.\<close>

definition publisher_main :: "publish_run \<Rightarrow> log_event list \<times> error option" where
  "publisher_main r =
    (case before_publish r of
       Some e \<Rightarrow> ([], Some e)
     | None \<Rightarrow>
        (case basic_publish r of
           Inl e \<Rightarrow> ([], Some e)
         | Inr result \<Rightarrow>
            (case conn_close r of
               Some e \<Rightarrow> ([], Some e)
             | None \<Rightarrow>
                if result then ([LogInfo ''Published message''], None)
                else ([LogError ''Unable to publish message''], None))))"

text \<open>The exit status of the interpreter: 0 when \<open>main\<close> returns, the status of a
  \<open>SystemExit\<close>, 1 for a \<open>SystemExit\<close> with a message and for any other exception.\<close>

fun exit_status :: "error option \<Rightarrow> nat" where
  "exit_status None = 0"
| "exit_status (Some (SystemExit (Status n))) = n"
| "exit_status (Some e) = 1"

section \<open>The consumer\<close>

text \<open>\<open>sep.join(xs)\<close>\<close>

fun str_join :: "string \<Rightarrow> string list \<Rightarrow> string" where
  "str_join sep [] = []"
| "str_join sep [x] = x"
| "str_join sep (x # y # ys) = x @ sep @ str_join sep (y # ys)"

text \<open>\<open>block_format\<close>\<close>

definition fmt_line :: "string \<Rightarrow> nat \<Rightarrow> string \<Rightarrow> string" where
  "fmt_line prefix indent line = replicate indent CHR '' '' @ '' '' @ prefix @ '' '' @ line"

definition fmt_header :: "nat \<Rightarrow> string \<Rightarrow> string" where
  "fmt_header indent line =
    (if line \<noteq> [] then replicate indent CHR '' '' @ line @ [CHR 0x0A] else [])"

definition block_format :: "string \<Rightarrow> string \<Rightarrow> string \<Rightarrow> nat \<Rightarrow> string" where
  "block_format strblock prefix header indent =
    fmt_header indent header @
    str_join [CHR 0x0A] (map (fmt_line prefix indent) (str_split CHR 0x0A strblock)) @
    [CHR 0x0A]"

text \<open>
  The \<open>json\<close> module: \<open>json.loads(body)\<close> and \<open>json.dumps(parsed, indent=n,
  sort_keys=b)\<close>, each returning a value or raising.
\<close>

record 'j json_module =
  loads :: "string \<Rightarrow> error + 'j"
  dumps :: "'j \<Rightarrow> nat \<Rightarrow> bool \<Rightarrow> error + string"

text \<open>\<open>pretty_json\<close>; the module is \<open>None\<close> when \<open>import json\<close> fails.\<close>

definition pretty_json :: "'j json_module option \<Rightarrow> string \<Rightarrow> string" where
  "pretty_json json body =
    (case json of
       None \<Rightarrow> body
     | Some j \<Rightarrow>
        (case loads j body of
           Inl e \<Rightarrow> body
         | Inr parsed \<Rightarrow>
            (case dumps j parsed 4 True of
               Inl e \<Rightarrow> body
             | Inr s \<Rightarrow> s)))"

text \<open>The attributes of \<open>method\<close> and \<open>header\<close> that \<open>consumer_callback\<close> reads.\<close>

record method_frame =
  consumer_tag :: string
  exchange :: string
  routing_key :: string
  delivery_tag :: nat
  redelivered :: bool

record header_frame =
  delivery_mode :: "nat option"
  content_type :: "string option"

definition str_bool :: "bool \<Rightarrow> string" where
  "str_bool b = (if b then ''True'' else ''False'')"

definition metadata :: "method_frame \<Rightarrow> header_frame \<Rightarrow> string" where
  "metadata m h =
    str_join [CHR 0x0A]
      [''consumer: '' @ consumer_tag m,
       ''exchange: '' @ exchange m,
       ''routing-key: '' @ routing_key m,
       ''delivery-tag: '' @ str_nat (delivery_tag m),
       ''redelivered: '' @ str_bool (redelivered m),
       ''delivery-mode: '' @ (case delivery_mode h of None \<Rightarrow> ''None'' | Some n \<Rightarrow> str_nat n),
       ''content-type: '' @ (case content_type h of None \<Rightarrow> ''None'' | Some t \<Rightarrow> t)]"

text \<open>What \<open>consumer_callback\<close> does, in order.\<close>

datatype effect = Print string | BasicAck nat

definition consumer_callback ::
  "'j json_module option \<Rightarrow> method_frame \<Rightarrow> header_frame \<Rightarrow> string \<Rightarrow> effect list" where
  "consumer_callback json m h body =
    [Print (block_format (metadata m h) ''>'' ''Metadata'' 2),
     Print (block_format
       (if content_type h = Some ''application/json'' then pretty_json json body else body)
       ''>>'' ''Body'' 2),
     BasicAck (delivery_tag m)]"

section \<open>Sample surroundings\<close>

text \<open>
  A file system for evaluating the model: a system file that sets \<open>conn.host\<close>, a
  \<open>config.yml\<close> holding a YAML list, a \<open>bad.yml\<close> that does not parse, nothing else.
\<close>

definition sample_files :: "string \<Rightarrow> file_entry" where
  "sample_files p =
    (if p = ''/usr/etc/pika-cli-config.yml''
       then Document (PDict [(''conn'', PDict [(''host'', PStr ''mq'')])])
     else if p = ''config.yml'' then Document (PList [PStr ''conn''])
     else if p = ''bad.yml'' then Malformed ''mapping values are not allowed here''
     else Absent)"

definition sample_env :: "(string \<Rightarrow> file_entry) \<Rightarrow> env" where
  "sample_env fs =
    \<lparr>ssl_newest = ''tlsv1.2'',
     conf_sys = ''/usr/etc/pika-cli-config.yml'',
     conf_usr = ''/home/u/.config/pika-cli-config.yml'',
     expanduser = (\<lambda>p. p),
     files = fs\<rparr>"

text \<open>
  A stand-in for the \<open>json\<close> module over documents that are natural numbers: it parses
  decimal digits only, and serialises by \<open>str_nat\<close>.
\<close>

definition sample_json :: "nat json_module" where
  "sample_json =
    \<lparr>loads = (\<lambda>s. if s = ''7'' then Inr 7 else Inl (External ''No JSON object could be decoded'')),
     dumps = (\<lambda>n indent sort_keys. Inr (str_nat n))\<rparr>"

section \<open>Reading a store\<close>

text \<open>The value a store reports for a setting of the schema.\<close>

definition current :: "Config \<Rightarrow> string \<Rightarrow> pyval" where
  "current self key =
    (case settings self key of
       Some v \<Rightarrow> v
     | None \<Rightarrow> (case map_of (defaults self) key of Some d \<Rightarrow> d | None \<Rightarrow> PNone))"

section \<open>Basic facts\<close>

lemma keys_DEFAULT_CONFIG: "map fst (DEFAULT_CONFIG ver) = schema_keys"
  by (simp add: DEFAULT_CONFIG_def schema_keys_def)

lemma map_of_DEFAULT_CONFIG_None:
  "map_of (DEFAULT_CONFIG ver) item = None \<longleftrightarrow> item \<notin> set schema_keys"
  unfolding map_of_eq_None_iff keys_DEFAULT_CONFIG [of ver, symmetric] by simp

lemma map_of_DEFAULT_CONFIG_Some:
  "item \<in> set schema_keys \<Longrightarrow> \<exists>d. map_of (DEFAULT_CONFIG ver) item = Some d"
  using map_of_DEFAULT_CONFIG_None [of ver item] by (cases "map_of (DEFAULT_CONFIG ver) item") auto

lemma Config_init_empty: "Config_init ver [] = Inr (Config_fresh ver)"
  by (simp add: Config_init_def Config_fresh_def)

lemma defaults_setitem [simp]: "defaults (snd (Config_setitem item v self)) = defaults self"
  by (simp add: Config_setitem_def split: option.splits)

lemma defaults_delitem [simp]: "defaults (snd (Config_delitem item self)) = defaults self"
  by (simp add: Config_delitem_def split: option.splits)

section \<open>Loading a nested mapping\<close>


lemma sort_schema_keys:
  "sort schema_keys =
    [''auth.password'', ''auth.username'', ''conn.host'', ''conn.port'', ''conn.vhost'',
     ''logging.level'', ''ssl.ciphers'', ''ssl.enable'', ''ssl.version'']"
  unfolding schema_keys_def by code_simp

lemma Config_iter_schema:
  "defaults self = DEFAULT_CONFIG ver \<Longrightarrow> set (Config_iter self) = set schema_keys"
  by (simp add: Config_iter_def keys_DEFAULT_CONFIG del: set_map)

lemma split_schema_key:
  "key \<in> set schema_keys \<Longrightarrow>
    \<exists>s opt. str_split CHR ''.'' key = [s, opt] \<and> s \<in> set schema_sections"
  by (auto simp: schema_keys_def schema_sections_def)

lemma nested_mapping_section:
  assumes "nested_mapping source" "s \<in> set schema_sections"
  obtains d d' where "source = PDict d" "map_of d s = Some (PDict d')"
    | d where "source = PDict d" "map_of d s = None"
proof -
  from assms(1) obtain d where d: "source = PDict d"
    by (cases source) (auto simp: nested_mapping_def)
  show thesis
  proof (cases "map_of d s")
    case None
    with d that(2) show thesis by blast
  next
    case (Some v)
    with assms d have "is_dict v"
      by (auto simp: nested_mapping_def list_all_iff split: option.splits)
    then obtain d' where "v = PDict d'" by (cases v) auto
    with Some d that(1) show thesis by blast
  qed
qed

lemma load_key_nested:
  assumes nm: "nested_mapping source" and key: "key \<in> set schema_keys"
    and dflt: "defaults self = DEFAULT_CONFIG ver"
  shows "load_key source key self =
    (None, case source_value source key of
             None \<Rightarrow> self
           | Some v \<Rightarrow> self\<lparr>settings := (settings self)(key \<mapsto> v)\<rparr>)"
proof -
  from split_schema_key [OF key] obtain s opt
    where sp: "str_split CHR ''.'' key = [s, opt]" and s: "s \<in> set schema_sections" by blast
  from map_of_DEFAULT_CONFIG_Some [OF key, of ver] obtain dv
    where dv: "map_of (DEFAULT_CONFIG ver) key = Some dv" by blast
  from nm s show ?thesis
  proof (cases rule: nested_mapping_section)
    case (1 d d')
    show ?thesis
    proof (cases "map_of d' opt")
      case None
      then have "opt \<notin> fst ` set d'" by (simp add: map_of_eq_None_iff)
      with 1 None sp show ?thesis
        by (simp add: load_key_def source_value_def)
    next
      case (Some v)
      then have "opt \<in> fst ` set d'" using map_of_eq_None_iff [of d' opt] by simp
      with 1 Some sp dv dflt show ?thesis
        by (simp add: load_key_def source_value_def Config_setitem_def)
    qed
  next
    case (2 d)
    with sp show ?thesis
      by (simp add: load_key_def source_value_def)
  qed
qed


lemma load_keys_nested:
  assumes nm: "nested_mapping source"
  shows "set keys \<subseteq> set schema_keys \<Longrightarrow> defaults self = DEFAULT_CONFIG ver \<Longrightarrow>
    load_keys source keys self =
      (None, self\<lparr>settings := (\<lambda>k. if k \<in> set keys
          then (case source_value source k of None \<Rightarrow> settings self k | Some v \<Rightarrow> Some v)
          else settings self k)\<rparr>)"
proof (induction keys arbitrary: self)
  case Nil
  then show ?case by simp
next
  case (Cons key keys)
  then have key: "key \<in> set schema_keys" and keys: "set keys \<subseteq> set schema_keys" by auto
  let ?m = "case source_value source key of
              None \<Rightarrow> settings self | Some v \<Rightarrow> (settings self)(key \<mapsto> v)"
  let ?self' = "self\<lparr>settings := ?m\<rparr>"
  have step: "load_key source key self = (None, ?self')"
    using load_key_nested [OF nm key Cons.prems(2)] by (simp split: option.splits)
  have d': "defaults ?self' = DEFAULT_CONFIG ver" using Cons.prems(2) by simp
  have fun_eq: "(\<lambda>k. if k \<in> set keys
          then (case source_value source k of None \<Rightarrow> ?m k | Some v \<Rightarrow> Some v)
          else ?m k) =
        (\<lambda>k. if k \<in> set (key # keys)
          then (case source_value source k of None \<Rightarrow> settings self k | Some v \<Rightarrow> Some v)
          else settings self k)"
    by (rule ext) (auto split: option.splits)
  have "load_keys source keys ?self' =
      (None, self\<lparr>settings := (\<lambda>k. if k \<in> set keys
          then (case source_value source k of None \<Rightarrow> ?m k | Some v \<Rightarrow> Some v)
          else ?m k)\<rparr>)"
    using Cons.IH [OF keys d'] by (simp cong: if_cong option.case_cong)
  then show ?case
    by (simp only: load_keys.simps step fun_eq prod.case option.case)
qed

lemma load_dict_nested:
  assumes "nested_mapping source" "defaults self = DEFAULT_CONFIG ver"
  shows "load_dict source self =
      (None, self\<lparr>settings := (\<lambda>k. if k \<in> set schema_keys
          then (case source_value source k of None \<Rightarrow> settings self k | Some v \<Rightarrow> Some v)
          else settings self k)\<rparr>)"
  unfolding load_dict_def
  using load_keys_nested [OF assms(1) _ assms(2), of "Config_iter self"] Config_iter_schema [OF assms(2)]
  by simp


lemma getitem_schema:
  assumes "defaults self = DEFAULT_CONFIG ver" "key \<in> set schema_keys"
  shows "Config_getitem self key = Inr (current self key)"
  using map_of_DEFAULT_CONFIG_Some [OF assms(2), of ver] assms(1)
  by (auto simp: Config_getitem_def current_def split: option.splits)

lemma getitem_unknown:
  assumes "defaults self = DEFAULT_CONFIG ver" "key \<notin> set schema_keys"
  shows "Config_getitem self key = Inl (KeyError (''No setting '' @ key))"
  using map_of_DEFAULT_CONFIG_None [of ver key] assms
  by (simp add: Config_getitem_def)

lemma Config_iter_sorted:
  assumes "defaults self = DEFAULT_CONFIG ver"
  shows "Config_iter self =
    [''auth.password'', ''auth.username'', ''conn.host'', ''conn.port'', ''conn.vhost'',
     ''logging.level'', ''ssl.ciphers'', ''ssl.enable'', ''ssl.version'']"
  using assms by (simp add: Config_iter_def keys_DEFAULT_CONFIG sort_schema_keys)

lemma dump_dict_value:
  assumes "defaults self = DEFAULT_CONFIG ver"
  shows "dump_dict self = Inr (PDict
    [(''auth'', PDict [(''password'', current self ''auth.password''),
                       (''username'', current self ''auth.username'')]),
     (''conn'', PDict [(''host'', current self ''conn.host''),
                       (''port'', current self ''conn.port''),
                       (''vhost'', current self ''conn.vhost'')]),
     (''logging'', PDict [(''level'', current self ''logging.level'')]),
     (''ssl'', PDict [(''ciphers'', current self ''ssl.ciphers''),
                      (''enable'', current self ''ssl.enable''),
                      (''version'', current self ''ssl.version'')])])"
  by (simp add: dump_dict_def Config_iter_sorted [OF assms] getitem_schema [OF assms] schema_keys_def)


lemma dump_dict_source:
  assumes "defaults self = DEFAULT_CONFIG ver"
  obtains dump where "dump_dict self = Inr dump" "nested_mapping dump"
    "\<And>key. key \<in> set schema_keys \<Longrightarrow> source_value dump key = Some (current self key)"
proof
  show "dump_dict self = Inr (PDict
    [(''auth'', PDict [(''password'', current self ''auth.password''),
                       (''username'', current self ''auth.username'')]),
     (''conn'', PDict [(''host'', current self ''conn.host''),
                       (''port'', current self ''conn.port''),
                       (''vhost'', current self ''conn.vhost'')]),
     (''logging'', PDict [(''level'', current self ''logging.level'')]),
     (''ssl'', PDict [(''ciphers'', current self ''ssl.ciphers''),
                      (''enable'', current self ''ssl.enable''),
                      (''version'', current self ''ssl.version'')])])"
    (is "_ = Inr ?dump")
    by (rule dump_dict_value [OF assms])
  show "nested_mapping ?dump"
    by (simp add: nested_mapping_def schema_sections_def)
  show "source_value ?dump key = Some (current self key)" if "key \<in> set schema_keys" for key
    using that by (auto simp: schema_keys_def source_value_def)
qed

lemma getitem_after_load:
  assumes "nested_mapping source" "defaults self = DEFAULT_CONFIG ver" "key \<in> set schema_keys"
  shows "Config_getitem (snd (load_dict source self)) key =
    Inr (case source_value source key of None \<Rightarrow> current self key | Some v \<Rightarrow> v)"
proof -
  let ?self' = "snd (load_dict source self)"
  have d: "defaults ?self' = DEFAULT_CONFIG ver"
    by (simp add: load_dict_nested [OF assms(1,2)] assms(2))
  have "current ?self' key =
      (case source_value source key of None \<Rightarrow> current self key | Some v \<Rightarrow> v)"
    using assms(3) by (simp add: load_dict_nested [OF assms(1,2)] current_def split: option.splits)
  with getitem_schema [OF d assms(3)] show ?thesis by simp
qed

lemma load_dict_ok:
  assumes "nested_mapping source" "defaults self = DEFAULT_CONFIG ver"
  shows "fst (load_dict source self) = None"
    and "defaults (snd (load_dict source self)) = DEFAULT_CONFIG ver"
  by (simp_all add: load_dict_nested [OF assms] assms(2))



lemma getitem_fresh:
  assumes "(k, d) \<in> set (DEFAULT_CONFIG ver)"
  shows "Config_getitem (Config_fresh ver) k = Inr d"
proof -
  have "distinct (map fst (DEFAULT_CONFIG ver))"
    by (simp add: keys_DEFAULT_CONFIG schema_keys_def)
  with assms have "map_of (DEFAULT_CONFIG ver) k = Some d" by simp
  then show ?thesis by (simp add: Config_getitem_def Config_fresh_def)
qed

lemma map_of_DEFAULT_CONFIG_mem:
  "map_of (DEFAULT_CONFIG ver) k = Some d \<longleftrightarrow> (k, d) \<in> set (DEFAULT_CONFIG ver)"
proof -
  have "distinct (map fst (DEFAULT_CONFIG ver))"
    by (simp add: keys_DEFAULT_CONFIG schema_keys_def)
  then show ?thesis by (auto dest: map_of_SomeD)
qed

lemma current_fresh:
  "(k, d) \<in> set (DEFAULT_CONFIG ver) \<Longrightarrow> current (Config_fresh ver) k = d"
  using map_of_DEFAULT_CONFIG_mem [of ver k d] by (simp add: current_def Config_fresh_def)

text \<open>The value the sources give a setting, read in order from a starting value.\<close>

lemma load_dicts_nested:
  "\<forall>src \<in> set srcs. nested_mapping src \<Longrightarrow> defaults self = DEFAULT_CONFIG ver \<Longrightarrow>
    fst (load_dicts srcs self) = None
    \<and> defaults (snd (load_dicts srcs self)) = DEFAULT_CONFIG ver
    \<and> (\<forall>k \<in> set schema_keys. current (snd (load_dicts srcs self)) k =
          fold (\<lambda>src cur. case source_value src k of None \<Rightarrow> cur | Some v \<Rightarrow> v) srcs
            (current self k))"
proof (induction srcs arbitrary: self)
  case Nil
  then show ?case by simp
next
  case (Cons src srcs)
  then have nm: "nested_mapping src" and rest: "\<forall>src \<in> set srcs. nested_mapping src" by auto
  obtain nxt where l: "load_dict src self = (None, nxt)"
    using load_dict_ok(1) [OF nm Cons.prems(2)] by (cases "load_dict src self") auto
  have d: "defaults nxt = DEFAULT_CONFIG ver"
    using load_dict_ok(2) [OF nm Cons.prems(2)] l by simp
  have cur: "current nxt k =
      (case source_value src k of None \<Rightarrow> current self k | Some v \<Rightarrow> v)"
    if "k \<in> set schema_keys" for k
    using getitem_after_load [OF nm Cons.prems(2) that] getitem_schema [OF d that] l by simp
  from Cons.IH [OF rest d] cur show ?case by (simp add: l)
qed

lemma fold_undefined:
  "\<forall>src \<in> set srcs. source_value src k = None \<Longrightarrow>
    fold (\<lambda>src cur. case source_value src k of None \<Rightarrow> cur | Some v \<Rightarrow> v) srcs x = x"
  by (induction srcs arbitrary: x) auto

section \<open>Claims about the configuration merger\<close>

text \<open>
  The merger on sources whose sections are mappings. Sources are applied in order to a
  fresh store, and every source is a dictionary in which each schema section it has is a
  dictionary. When a source \<open>B\<close> of the list defines the schema key \<open>k\<close> and no source
  after \<open>B\<close> defines it, the merge returns a store whose value for \<open>k\<close> is the value of
  \<open>B\<close>, whatever the sources before \<open>B\<close> say: the later source wins. A key that no
  source defines reads as its schema default. The list \<open>[A, B]\<close> is \<open>pre = [A]\<close>,
  \<open>post = []\<close>; the list \<open>[A]\<close> alone is \<open>pre = []\<close>, \<open>B = A\<close>, \<open>post = []\<close>.
\<close>

theorem later_source_wins:
  assumes nm: "\<forall>src \<in> set (pre @ B # post). nested_mapping src"
    and k: "k \<in> set schema_keys"
    and B: "source_value B k = Some b"
    and post: "\<forall>src \<in> set post. source_value src k = None"
  shows "\<exists>s. load_dicts (pre @ B # post) (Config_fresh ver) = (None, s)
      \<and> Config_getitem s k = Inr b
      \<and> (\<forall>(k', d) \<in> set (DEFAULT_CONFIG ver).
            (\<forall>src \<in> set (pre @ B # post). source_value src k' = None) \<longrightarrow>
            Config_getitem s k' = Inr d)"
proof -
  let ?srcs = "pre @ B # post"
  let ?fresh = "Config_fresh ver"
  let ?res = "snd (load_dicts ?srcs ?fresh)"
  have d0: "defaults ?fresh = DEFAULT_CONFIG ver" by (simp add: Config_fresh_def)
  from load_dicts_nested [OF nm d0]
  have ok: "fst (load_dicts ?srcs ?fresh) = None"
    and d: "defaults ?res = DEFAULT_CONFIG ver"
    and cur: "\<And>k. k \<in> set schema_keys \<Longrightarrow> current ?res k =
          fold (\<lambda>src cur. case source_value src k of None \<Rightarrow> cur | Some v \<Rightarrow> v) ?srcs
            (current ?fresh k)"
    by blast+
  have 1: "load_dicts ?srcs ?fresh = (None, ?res)"
    using ok by (cases "load_dicts ?srcs ?fresh") auto
  have 2: "Config_getitem ?res k = Inr b"
    using getitem_schema [OF d k] cur [OF k] B fold_undefined [OF post] by simp
  have 3: "Config_getitem ?res k' = Inr d'"
    if "(k', d') \<in> set (DEFAULT_CONFIG ver)"
      and "\<forall>src \<in> set ?srcs. source_value src k' = None" for k' d'
  proof -
    from that(1) have k': "k' \<in> set schema_keys"
      unfolding keys_DEFAULT_CONFIG [of ver, symmetric] by force
    from getitem_schema [OF d k'] cur [OF k'] fold_undefined [OF that(2)] current_fresh [OF that(1)]
    show ?thesis by simp
  qed
  from 1 2 3 show ?thesis by blast
qed

theorem later_source_wins_witness:
  "nested_mapping (PDict [(''conn'', PDict [(''host'', PStr ''a'')])])
   \<and> nested_mapping (PDict [(''conn'', PDict [(''host'', PStr ''b'')])])
   \<and> source_value (PDict [(''conn'', PDict [(''host'', PStr ''a'')])]) ''conn.host'' = Some (PStr ''a'')
   \<and> source_value (PDict [(''conn'', PDict [(''host'', PStr ''b'')])]) ''conn.host'' = Some (PStr ''b'')
   \<and> fst (load_dicts [PDict [(''conn'', PDict [(''host'', PStr ''a'')])],
                        PDict [(''conn'', PDict [(''host'', PStr ''b'')])]]
           (Config_fresh ''tlsv1.2'')) = None
   \<and> Config_getitem
         (snd (load_dicts [PDict [(''conn'', PDict [(''host'', PStr ''a'')])],
                           PDict [(''conn'', PDict [(''host'', PStr ''b'')])]]
                (Config_fresh ''tlsv1.2''))) ''conn.host'' = Inr (PStr ''b'')
   \<and> Config_getitem
         (snd (load_dicts [PDict [(''conn'', PDict [(''host'', PStr ''a'')])],
                           PDict [(''conn'', PDict [(''host'', PStr ''b'')])]]
                (Config_fresh ''tlsv1.2''))) ''conn.port'' = Inr (PInt 5672)"
proof -
  let ?A = "PDict [(''conn'', PDict [(''host'', PStr ''a'')])]"
  let ?B = "PDict [(''conn'', PDict [(''host'', PStr ''b'')])]"
  have nA: "nested_mapping ?A" and nB: "nested_mapping ?B"
    by (simp_all add: nested_mapping_def schema_sections_def)
  have vA: "source_value ?A ''conn.host'' = Some (PStr ''a'')"
    and vB: "source_value ?B ''conn.host'' = Some (PStr ''b'')"
    and pA: "source_value ?A ''conn.port'' = None"
    and pB: "source_value ?B ''conn.port'' = None"
    by (simp_all add: source_value_def)
  have h1: "\<forall>src \<in> set ([?A] @ ?B # []). nested_mapping src" using nA nB by simp
  have h2: "''conn.host'' \<in> set schema_keys" by (simp add: schema_keys_def)
  have h4: "\<forall>src \<in> set []. source_value src ''conn.host'' = None" by simp
  have port: "(''conn.port'', PInt 5672) \<in> set (DEFAULT_CONFIG ''tlsv1.2'')"
    by (simp add: DEFAULT_CONFIG_def)
  from later_source_wins [OF h1 h2 vB h4, of "''tlsv1.2''"] obtain s
    where s: "load_dicts [?A, ?B] (Config_fresh ''tlsv1.2'') = (None, s)"
      and host: "Config_getitem s ''conn.host'' = Inr (PStr ''b'')"
      and dflt: "\<forall>(k', d) \<in> set (DEFAULT_CONFIG ''tlsv1.2'').
            (\<forall>src \<in> set ([?A] @ ?B # []). source_value src k' = None) \<longrightarrow>
            Config_getitem s k' = Inr d"
    by auto
  from dflt port pA pB have "Config_getitem s ''conn.port'' = Inr (PInt 5672)" by fastforce
  with nA nB vA vB s host show ?thesis by simp
qed

text \<open>
  C1. \<open>read_config\<close> checks only that the root of a source is a mapping, and
  \<open>load_dict\<close> replaces a missing section by an empty dictionary, but a section that is
  present and is no mapping is not provided for. A YAML file with an empty \<open>ssl:\<close>
  section parses to a mapping with \<open>None\<close> under \<open>ssl\<close>. With a source \<open>A\<close> and such a
  source \<open>B\<close> that both define \<open>conn.host\<close>, loading \<open>B\<close> sets \<open>conn.host\<close> and then
  raises \<open>TypeError\<close> at \<open>'ciphers' in None\<close>: the merge, and \<open>get_config\<close> on files with
  these two documents, return no store, where the later source was to win.
\<close>

theorem nonmapping_section_raises:
  "source_value (PDict [(''conn'', PDict [(''host'', PStr ''a'')])]) ''conn.host'' = Some (PStr ''a'')
   \<and> source_value (PDict [(''conn'', PDict [(''host'', PStr ''b'')]), (''ssl'', PNone)]) ''conn.host'' =
       Some (PStr ''b'')
   \<and> load_dicts [PDict [(''conn'', PDict [(''host'', PStr ''a'')])],
                  PDict [(''conn'', PDict [(''host'', PStr ''b'')]), (''ssl'', PNone)]]
         (Config_fresh ''tlsv1.2'') =
       (Some TypeError,
        \<lparr>defaults = DEFAULT_CONFIG ''tlsv1.2'', settings = [''conn.host'' \<mapsto> PStr ''b'']\<rparr>)
   \<and> get_config
         \<lparr>ssl_newest = ''tlsv1.2'', conf_sys = ''/usr/etc/pika-cli-config.yml'',
          conf_usr = ''/home/u/.config/pika-cli-config.yml'', expanduser = (\<lambda>p. p),
          files = (\<lambda>p. if p = ''/usr/etc/pika-cli-config.yml''
                           then Document (PDict [(''conn'', PDict [(''host'', PStr ''a'')])])
                         else if p = ''/home/u/.config/pika-cli-config.yml''
                           then Document (PDict [(''conn'', PDict [(''host'', PStr ''b'')]), (''ssl'', PNone)])
                         else Absent)\<rparr>
         False False None = Inl TypeError"
proof -
  let ?A = "PDict [(''conn'', PDict [(''host'', PStr ''a'')])]"
  let ?B = "PDict [(''conn'', PDict [(''host'', PStr ''b'')]), (''ssl'', PNone)]"
  let ?dflt = "DEFAULT_CONFIG ''tlsv1.2''"
  have it: "Config_iter \<lparr>defaults = ?dflt, settings = st\<rparr> =
      [''auth.password'', ''auth.username'', ''conn.host'', ''conn.port'', ''conn.vhost'',
       ''logging.level'', ''ssl.ciphers'', ''ssl.enable'', ''ssl.version'']" for st
    by (rule Config_iter_sorted) simp
  have host: "map_of ?dflt ''conn.host'' = Some (PStr ''localhost'')"
    by (simp add: DEFAULT_CONFIG_def)
  have la: "load_dict ?A (Config_fresh ''tlsv1.2'') =
      (None, \<lparr>defaults = ?dflt, settings = [''conn.host'' \<mapsto> PStr ''a'']\<rparr>)"
    by (simp add: load_dict_def Config_fresh_def it load_key_def Config_setitem_def host)
  have lb: "load_dict ?B \<lparr>defaults = ?dflt, settings = [''conn.host'' \<mapsto> PStr ''a'']\<rparr> =
      (Some TypeError, \<lparr>defaults = ?dflt, settings = [''conn.host'' \<mapsto> PStr ''b'']\<rparr>)"
    by (simp add: load_dict_def it load_key_def Config_setitem_def host)
  have va: "source_value ?A ''conn.host'' = Some (PStr ''a'')"
    and vb: "source_value ?B ''conn.host'' = Some (PStr ''b'')"
    by (simp_all add: source_value_def)
  have lds: "load_dicts [?A, ?B] (Config_fresh ''tlsv1.2'') =
      (Some TypeError, \<lparr>defaults = ?dflt, settings = [''conn.host'' \<mapsto> PStr ''b'']\<rparr>)"
    by (simp add: la lb)
  have gc: "get_config
         \<lparr>ssl_newest = ''tlsv1.2'', conf_sys = ''/usr/etc/pika-cli-config.yml'',
          conf_usr = ''/home/u/.config/pika-cli-config.yml'', expanduser = (\<lambda>p. p),
          files = (\<lambda>p. if p = ''/usr/etc/pika-cli-config.yml'' then Document ?A
                         else if p = ''/home/u/.config/pika-cli-config.yml'' then Document ?B
                         else Absent)\<rparr>
         False False None = Inl TypeError"
    by (simp add: get_config_def Config_init_empty config_paths_def read_config_def la lb)
  from va vb lds gc show ?thesis by (intro conjI)
qed

text \<open>
  C5. Round trip: for every store, \<open>dump_dict\<close> returns a nested mapping, loading it
  into a fresh store succeeds, and the loaded store reads like the original one under
  every key (with the same \<open>KeyError\<close> outside the schema).
\<close>

theorem dump_load_roundtrip:
  "\<exists>dump s'. dump_dict \<lparr>defaults = DEFAULT_CONFIG ver, settings = st\<rparr> = Inr dump
      \<and> load_dict dump (Config_fresh ver) = (None, s')
      \<and> (\<forall>key. Config_getitem s' key =
            Config_getitem \<lparr>defaults = DEFAULT_CONFIG ver, settings = st\<rparr> key)"
proof -
  let ?orig = "\<lparr>defaults = DEFAULT_CONFIG ver, settings = st\<rparr>"
  let ?fresh = "Config_fresh ver"
  have d: "defaults ?orig = DEFAULT_CONFIG ver" by simp
  have d0: "defaults ?fresh = DEFAULT_CONFIG ver" by (simp add: Config_fresh_def)
  from dump_dict_source [OF d] obtain dump
    where dump: "dump_dict ?orig = Inr dump" and nm: "nested_mapping dump"
      and sv: "\<And>key. key \<in> set schema_keys \<Longrightarrow> source_value dump key = Some (current ?orig key)"
    by blast
  let ?loaded = "snd (load_dict dump ?fresh)"
  have l: "load_dict dump ?fresh = (None, ?loaded)"
    using load_dict_ok(1) [OF nm d0] by (simp add: prod_eq_iff)
  have "Config_getitem ?loaded key = Config_getitem ?orig key" for key
  proof (cases "key \<in> set schema_keys")
    case True
    with getitem_after_load [OF nm d0 True] sv [OF True] getitem_schema [OF d True]
    show ?thesis by simp
  next
    case False
    with getitem_unknown [OF load_dict_ok(2) [OF nm d0] False] getitem_unknown [OF d False]
    show ?thesis by simp
  qed
  with dump l show ?thesis by blast
qed

section \<open>Claims about the settings store\<close>

text \<open>
  C6. For every key string outside the closed schema and every state of the store,
  get, set and delete each fail with \<open>KeyError\<close> (\<open>No setting <key>\<close>), and the failed
  set and the failed delete leave the store as it was.
\<close>

theorem unknown_key_is_KeyError:
  assumes "item \<notin> set schema_keys"
  shows "Config_getitem \<lparr>defaults = DEFAULT_CONFIG ver, settings = st\<rparr> item =
        Inl (KeyError (''No setting '' @ item))
    \<and> Config_setitem item v \<lparr>defaults = DEFAULT_CONFIG ver, settings = st\<rparr> =
        (Some (KeyError (''No setting '' @ item)), \<lparr>defaults = DEFAULT_CONFIG ver, settings = st\<rparr>)
    \<and> Config_delitem item \<lparr>defaults = DEFAULT_CONFIG ver, settings = st\<rparr> =
        (Some (KeyError (''No setting '' @ item)), \<lparr>defaults = DEFAULT_CONFIG ver, settings = st\<rparr>)"
  using assms map_of_DEFAULT_CONFIG_None [of ver item]
  by (simp add: Config_getitem_def Config_setitem_def Config_delitem_def)

theorem unknown_key_is_KeyError_witness:
  "''bogus.key'' \<notin> set schema_keys
   \<and> Config_getitem \<lparr>defaults = DEFAULT_CONFIG ''tlsv1.2'', settings = [''conn.host'' \<mapsto> PStr ''mq'']\<rparr>
        ''bogus.key'' = Inl (KeyError ''No setting bogus.key'')
   \<and> Config_setitem ''bogus.key'' (PInt 1)
        \<lparr>defaults = DEFAULT_CONFIG ''tlsv1.2'', settings = [''conn.host'' \<mapsto> PStr ''mq'']\<rparr> =
        (Some (KeyError ''No setting bogus.key''),
         \<lparr>defaults = DEFAULT_CONFIG ''tlsv1.2'', settings = [''conn.host'' \<mapsto> PStr ''mq'']\<rparr>)
   \<and> Config_delitem ''bogus.key''
        \<lparr>defaults = DEFAULT_CONFIG ''tlsv1.2'', settings = [''conn.host'' \<mapsto> PStr ''mq'']\<rparr> =
        (Some (KeyError ''No setting bogus.key''),
         \<lparr>defaults = DEFAULT_CONFIG ''tlsv1.2'', settings = [''conn.host'' \<mapsto> PStr ''mq'']\<rparr>)"
proof -
  have h: "''bogus.key'' \<notin> set schema_keys" by (simp add: schema_keys_def)
  from unknown_key_is_KeyError [OF h, of "''tlsv1.2''" "[''conn.host'' \<mapsto> PStr ''mq'']" "PInt 1"] h
  show ?thesis by simp
qed

text \<open>
  C2, as stated, fails: deleting a schema key that has not been set raises
  \<open>KeyError\<close> (\<open><key> not set\<close>); on a fresh store:
\<close>

theorem delete_unset_key_counterexample:
  "Config_delitem ''conn.host'' (Config_fresh ''tlsv1.2'') =
     (Some (KeyError ''conn.host not set''), Config_fresh ''tlsv1.2'')"
  by (simp add: Config_delitem_def Config_fresh_def DEFAULT_CONFIG_def)

text \<open>
  C2, amended. For every schema key \<open>k\<close> with default \<open>d\<close> and every state of the
  store: when \<open>k\<close> has been set, deleting it succeeds and reading \<open>k\<close> afterwards
  returns \<open>d\<close>; when \<open>k\<close> has not been set, deleting it raises \<open>KeyError\<close>
  (\<open><key> not set\<close>), leaves the store as it was, and reading \<open>k\<close> returns \<open>d\<close>. The
  length of the store is the number of schema keys, and no set or delete, of any key,
  changes it.
\<close>

theorem delete_resets_to_default:
  assumes "(k, d) \<in> set (DEFAULT_CONFIG ver)"
  shows "(st k \<noteq> None \<longrightarrow>
          (\<exists>s'. Config_delitem k \<lparr>defaults = DEFAULT_CONFIG ver, settings = st\<rparr> = (None, s')
             \<and> Config_getitem s' k = Inr d))
    \<and> (st k = None \<longrightarrow>
          Config_delitem k \<lparr>defaults = DEFAULT_CONFIG ver, settings = st\<rparr> =
            (Some (KeyError (k @ '' not set'')), \<lparr>defaults = DEFAULT_CONFIG ver, settings = st\<rparr>)
          \<and> Config_getitem \<lparr>defaults = DEFAULT_CONFIG ver, settings = st\<rparr> k = Inr d)
    \<and> Config_len (snd (Config_delitem k' \<lparr>defaults = DEFAULT_CONFIG ver, settings = st\<rparr>)) =
        Config_len \<lparr>defaults = DEFAULT_CONFIG ver, settings = st\<rparr>
    \<and> Config_len (snd (Config_setitem k' v \<lparr>defaults = DEFAULT_CONFIG ver, settings = st\<rparr>)) =
        Config_len \<lparr>defaults = DEFAULT_CONFIG ver, settings = st\<rparr>
    \<and> Config_len \<lparr>defaults = DEFAULT_CONFIG ver, settings = st\<rparr> = length schema_keys"
proof -
  let ?S = "\<lparr>defaults = DEFAULT_CONFIG ver, settings = st\<rparr>"
  from assms have m: "map_of (DEFAULT_CONFIG ver) k = Some d"
    by (simp add: map_of_DEFAULT_CONFIG_mem)
  have set_case: "st k \<noteq> None \<longrightarrow>
      (\<exists>s'. Config_delitem k ?S = (None, s') \<and> Config_getitem s' k = Inr d)"
    using m by (auto simp: Config_delitem_def Config_getitem_def)
  have unset_case: "st k = None \<longrightarrow>
      Config_delitem k ?S = (Some (KeyError (k @ '' not set'')), ?S)
      \<and> Config_getitem ?S k = Inr d"
    using m by (simp add: Config_delitem_def Config_getitem_def)
  have len_del: "Config_len (snd (Config_delitem k' ?S)) = Config_len ?S"
    by (simp add: Config_len_def)
  have len_set: "Config_len (snd (Config_setitem k' v ?S)) = Config_len ?S"
    by (simp add: Config_len_def)
  have len: "Config_len ?S = length schema_keys"
    unfolding Config_len_def keys_DEFAULT_CONFIG [of ver, symmetric] by simp
  from set_case unset_case len_del len_set len show ?thesis by (intro conjI)
qed

theorem delete_resets_to_default_witness:
  "(''conn.host'', PStr ''localhost'') \<in> set (DEFAULT_CONFIG ''tlsv1.2'')
   \<and> fst (Config_delitem ''conn.host''
        \<lparr>defaults = DEFAULT_CONFIG ''tlsv1.2'', settings = [''conn.host'' \<mapsto> PStr ''mq'']\<rparr>) = None
   \<and> Config_getitem (snd (Config_delitem ''conn.host''
        \<lparr>defaults = DEFAULT_CONFIG ''tlsv1.2'', settings = [''conn.host'' \<mapsto> PStr ''mq'']\<rparr>))
        ''conn.host'' = Inr (PStr ''localhost'')
   \<and> Config_delitem ''conn.host'' \<lparr>defaults = DEFAULT_CONFIG ''tlsv1.2'', settings = Map.empty\<rparr> =
        (Some (KeyError ''conn.host not set''),
         \<lparr>defaults = DEFAULT_CONFIG ''tlsv1.2'', settings = Map.empty\<rparr>)
   \<and> Config_len (snd (Config_setitem ''conn.port'' (PInt 1)
        \<lparr>defaults = DEFAULT_CONFIG ''tlsv1.2'', settings = Map.empty\<rparr>)) = 9"
proof -
  have h: "(''conn.host'', PStr ''localhost'') \<in> set (DEFAULT_CONFIG ''tlsv1.2'')"
    by (simp add: DEFAULT_CONFIG_def)
  from delete_resets_to_default [OF h, of "[''conn.host'' \<mapsto> PStr ''mq'']" "''conn.port''" "PInt 1"]
    delete_resets_to_default [OF h, of Map.empty "''conn.port''" "PInt 1"] h
  show ?thesis by (auto simp: schema_keys_def)
qed

lemma setitem_unknown:
  assumes "defaults self = DEFAULT_CONFIG ver" "k \<notin> set schema_keys"
  shows "Config_setitem k v self = (Some (KeyError (''No setting '' @ k)), self)"
  using assms map_of_DEFAULT_CONFIG_None [of ver k] by (simp add: Config_setitem_def)

lemma setitem_schema:
  assumes "defaults self = DEFAULT_CONFIG ver" "k \<in> set schema_keys"
  shows "Config_setitem k v self = (None, self\<lparr>settings := (settings self)(k \<mapsto> v)\<rparr>)"
  using assms map_of_DEFAULT_CONFIG_Some [of k ver] by (auto simp: Config_setitem_def)

lemma Config_update_unknown:
  "defaults self = DEFAULT_CONFIG ver \<Longrightarrow> \<exists>k \<in> set (map fst init). k \<notin> set schema_keys \<Longrightarrow>
    \<exists>k self'. k \<in> set (map fst init) \<and> k \<notin> set schema_keys
      \<and> Config_update init self = (Some (KeyError (''No setting '' @ k)), self')"
proof (induction init arbitrary: self)
  case Nil
  then show ?case by simp
next
  case (Cons kv init)
  obtain k v where kv: "kv = (k, v)" by (cases kv)
  show ?case
  proof (cases "k \<in> set schema_keys")
    case False
    with setitem_unknown [OF Cons.prems(1) False, of v] kv show ?thesis by auto
  next
    case True
    let ?self' = "self\<lparr>settings := (settings self)(k \<mapsto> v)\<rparr>"
    have d: "defaults ?self' = DEFAULT_CONFIG ver" using Cons.prems(1) by simp
    from True Cons.prems(2) kv have "\<exists>k \<in> set (map fst init). k \<notin> set schema_keys" by auto
    from Cons.IH [OF d this] obtain k' s'
      where "k' \<in> set (map fst init)" "k' \<notin> set schema_keys"
        "Config_update init ?self' = (Some (KeyError (''No setting '' @ k')), s')" by blast
    with setitem_schema [OF Cons.prems(1) True, of v] kv show ?thesis by auto
  qed
qed

text \<open>
  C9. \<open>Config.__init__\<close> passes every entry of the initial mapping to
  \<open>Config.__setitem__\<close>: when the mapping has a key outside the closed schema,
  construction raises the \<open>KeyError\<close> of such a key and returns no store.
\<close>

theorem init_rejects_unknown_key:
  assumes "\<exists>k \<in> set (map fst init). k \<notin> set schema_keys"
  shows "\<exists>k. k \<in> set (map fst init) \<and> k \<notin> set schema_keys
      \<and> Config_init ver init = Inl (KeyError (''No setting '' @ k))"
proof -
  have "defaults \<lparr>defaults = DEFAULT_CONFIG ver, settings = Map.empty\<rparr> = DEFAULT_CONFIG ver"
    by simp
  from Config_update_unknown [OF this assms] show ?thesis
    by (auto simp: Config_init_def)
qed

theorem init_rejects_unknown_key_witness:
  "''bogus.key'' \<in> set (map fst [(''conn.host'', PStr ''mq''), (''bogus.key'', PInt 1)])
   \<and> ''bogus.key'' \<notin> set schema_keys
   \<and> Config_init ''tlsv1.2'' [(''conn.host'', PStr ''mq''), (''bogus.key'', PInt 1)] =
        Inl (KeyError ''No setting bogus.key'')"
proof -
  have h: "\<exists>k \<in> set (map fst [(''conn.host'', PStr ''mq''), (''bogus.key'', PInt 1)]).
      k \<notin> set schema_keys"
    by (simp add: schema_keys_def)
  from init_rejects_unknown_key [OF h, of "''tlsv1.2''"]
  show ?thesis by (auto simp: schema_keys_def)
qed

text \<open>
  C7, as stated, fails: \<open>Config.__setitem__\<close> stores the string \<open>abc\<close> under the
  integer setting \<open>conn.port\<close> without an exception, and the store then reports the
  string.
\<close>

theorem setitem_no_coercion_counterexample:
  "Config_setitem ''conn.port'' (PStr ''abc'') (Config_fresh ''tlsv1.2'') =
     (None, \<lparr>defaults = DEFAULT_CONFIG ''tlsv1.2'', settings = [''conn.port'' \<mapsto> PStr ''abc'']\<rparr>)
   \<and> Config_getitem
        \<lparr>defaults = DEFAULT_CONFIG ''tlsv1.2'', settings = [''conn.port'' \<mapsto> PStr ''abc'']\<rparr>
        ''conn.port'' = Inr (PStr ''abc'')"
  by (simp add: Config_setitem_def Config_getitem_def Config_fresh_def DEFAULT_CONFIG_def)

text \<open>
  C7, amended. For every schema key, every raw value and every state of the store,
  \<open>Config.__setitem__\<close> raises nothing and stores the raw value as it is: reading the
  key afterwards returns that very value. The store converts nothing and knows no types.
\<close>

theorem setitem_stores_raw_value:
  assumes "k \<in> set schema_keys"
  shows "\<exists>s'. Config_setitem k raw \<lparr>defaults = DEFAULT_CONFIG ver, settings = st\<rparr> = (None, s')
      \<and> Config_getitem s' k = Inr raw"
  using map_of_DEFAULT_CONFIG_Some [OF assms, of ver]
  by (auto simp: Config_setitem_def Config_getitem_def)

theorem setitem_stores_raw_value_witness:
  "''ssl.enable'' \<in> set schema_keys
   \<and> fst (Config_setitem ''ssl.enable'' (PList [PInt 3])
        \<lparr>defaults = DEFAULT_CONFIG ''tlsv1.2'', settings = Map.empty\<rparr>) = None
   \<and> Config_getitem (snd (Config_setitem ''ssl.enable'' (PList [PInt 3])
        \<lparr>defaults = DEFAULT_CONFIG ''tlsv1.2'', settings = Map.empty\<rparr>)) ''ssl.enable'' =
      Inr (PList [PInt 3])"
proof -
  have h: "''ssl.enable'' \<in> set schema_keys" by (simp add: schema_keys_def)
  from setitem_stores_raw_value [OF h, of "PList [PInt 3]" "''tlsv1.2''" Map.empty] h
  show ?thesis by auto
qed

text \<open>The class that converts values, \<open>IniConfig\<close>, cannot be instantiated.\<close>

lemma IniConfig_init_raises: "IniConfig_init ver = Some AttributeError"
  by (simp add: IniConfig_init_def IniConfig_VALUES_def)

section \<open>Claims about configuration files\<close>

lemma str_split_not_Nil: "str_split sep s \<noteq> []"
  by (induction s) (auto split: list.splits)

lemma dict_walk_empty: "dict_walk ps (PDict []) = Inr (PDict [])"
  by (induction ps) auto

lemma load_key_empty: "load_key (PDict []) key self = (None, self)"
proof (cases "rev (str_split CHR ''.'' key)")
  case Nil
  with str_split_not_Nil [of "CHR ''.''" key] show ?thesis by simp
next
  case (Cons l ps)
  then show ?thesis by (simp add: load_key_def dict_walk_empty)
qed

lemma load_keys_empty: "load_keys (PDict []) keys self = (None, self)"
  by (induction keys) (simp_all add: load_key_empty)

lemma load_dict_empty: "load_dict (PDict []) self = (None, self)"
  by (simp add: load_dict_def load_keys_empty)

lemma read_config_no_mapping:
  "no_mapping (fs path) \<Longrightarrow> read_config fs (Some path) = Inr (PDict [])"
  by (cases "fs path") (auto simp: read_config_def)

lemma load_paths_skip:
  "no_mapping (fs path) \<Longrightarrow> load_paths fs (path # paths) config = load_paths fs paths config"
  by (cases "fs path") (auto simp: read_config_def load_dict_empty)

lemma load_paths_append:
  "load_paths fs (ps @ qs) config =
    (case load_paths fs ps config of
       (Some e, config') \<Rightarrow> (Some e, config')
     | (None, config') \<Rightarrow> load_paths fs qs config')"
  by (induction ps arbitrary: config) (auto split: sum.splits prod.splits option.splits)

lemma load_paths_drop:
  assumes "no_mapping (fs path)"
  shows "load_paths fs (ps @ path # qs) config = load_paths fs (ps @ qs) config"
  using assms
  by (simp add: load_paths_append load_paths_skip [of fs path] del: load_paths.simps
      split: prod.splits option.splits)


lemma config_paths_custom:
  "config_paths e a b (Some c) = config_paths e a b None @ [expanduser e c]"
  by (simp add: config_paths_def)

lemma config_paths_sys:
  "config_paths e False b c = conf_sys e # config_paths e True b c"
  by (simp add: config_paths_def)

text \<open>The exception of a file that does not parse leaves \<open>read_config\<close>, and \<open>get_config\<close>
  when the file is the system file.\<close>

lemma malformed_file_raises:
  "fs path = Malformed msg \<Longrightarrow> path \<noteq> [] \<Longrightarrow> read_config fs (Some path) = Inl (External msg)"
  "files e (conf_sys e) = Malformed msg \<Longrightarrow> conf_sys e \<noteq> [] \<Longrightarrow>
    get_config e False iusr c = Inl (External msg)"
  by (simp_all add: get_config_def Config_init_empty config_paths_def read_config_def)

text \<open>
  C3, as stated, fails for a file that does not parse: \<open>read_config\<close> has no handler,
  the exception of \<open>yaml.load\<close> leaves \<open>read_config\<close> and \<open>get_config\<close>, and no store is
  returned, while without the file the fresh store is.
\<close>

theorem malformed_file_counterexample:
  "get_config \<lparr>ssl_newest = ''tlsv1.2'', conf_sys = ''/etc/pika-cli-config.yml'',
       conf_usr = ''/home/u/.config/pika-cli-config.yml'', expanduser = (\<lambda>p. p),
       files = (\<lambda>p. if p = ''config.yml'' then Malformed ''mapping values are not allowed here''
                      else Absent)\<rparr>
     False False (Some ''config.yml'') = Inl (External ''mapping values are not allowed here'')
   \<and> get_config \<lparr>ssl_newest = ''tlsv1.2'', conf_sys = ''/etc/pika-cli-config.yml'',
       conf_usr = ''/home/u/.config/pika-cli-config.yml'', expanduser = (\<lambda>p. p),
       files = (\<lambda>p. if p = ''config.yml'' then Malformed ''mapping values are not allowed here''
                      else Absent)\<rparr>
     False False None = Inr (Config_fresh ''tlsv1.2'')
   \<and> read_config (\<lambda>p. if p = ''config.yml'' then Malformed ''mapping values are not allowed here''
                      else Absent) (Some ''config.yml'') =
       Inl (External ''mapping values are not allowed here'')"
  by (simp add: get_config_def Config_init_empty config_paths_def read_config_def)

text \<open>
  C3, amended. A configuration file that is missing, or that parses to something other
  than a mapping at the root, yields the empty dictionary from \<open>read_config\<close> and raises
  nothing: \<open>get_config\<close> returns what it returns with that source left out, for the system
  file, the user file and the custom file alike.
\<close>

theorem missing_or_rootless_file_is_skipped:
  "(no_mapping (fs path) \<longrightarrow> read_config fs (Some path) = Inr (PDict []))
   \<and> (no_mapping (files e (conf_sys e)) \<longrightarrow> get_config e False iusr c = get_config e True iusr c)
   \<and> (no_mapping (files e (conf_usr e)) \<longrightarrow> get_config e isys False c = get_config e isys True c)
   \<and> (no_mapping (files e (expanduser e p)) \<longrightarrow> get_config e isys iusr (Some p) = get_config e isys iusr None)"
proof (intro conjI impI)
  assume "no_mapping (fs path)"
  then show "read_config fs (Some path) = Inr (PDict [])" by (rule read_config_no_mapping)
next
  assume "no_mapping (files e (conf_sys e))"
  then show "get_config e False iusr c = get_config e True iusr c"
    by (simp add: get_config_def Config_init_empty config_paths_sys load_paths_skip [of "files e"]
        del: load_paths.simps)
next
  assume nm: "no_mapping (files e (conf_usr e))"
  have first: "load_paths (files e) (conf_usr e # qs) config = load_paths (files e) qs config"
    for qs config
    using nm by (rule load_paths_skip)
  have second: "load_paths (files e) (conf_sys e # conf_usr e # qs) config =
      load_paths (files e) (conf_sys e # qs) config" for qs config
    using load_paths_drop [of "files e" "conf_usr e" "[conf_sys e]" qs config] nm
    by (simp del: load_paths.simps)
  show "get_config e isys False c = get_config e isys True c"
    by (cases isys)
      (simp_all add: get_config_def Config_init_empty config_paths_def first second
        del: load_paths.simps)
next
  assume nm: "no_mapping (files e (expanduser e p))"
  have "load_paths (files e) (config_paths e isys iusr None @ [expanduser e p]) config =
      load_paths (files e) (config_paths e isys iusr None @ []) config" for config
    using nm by (rule load_paths_drop)
  then show "get_config e isys iusr (Some p) = get_config e isys iusr None"
    by (simp add: get_config_def Config_init_empty config_paths_custom del: load_paths.simps)
qed

theorem missing_or_rootless_file_is_skipped_witness:
  "no_mapping (sample_files ''config.yml'')
   \<and> no_mapping (sample_files ''/home/u/.config/pika-cli-config.yml'')
   \<and> read_config sample_files (Some ''config.yml'') = Inr (PDict [])
   \<and> get_config (sample_env sample_files) False False (Some ''config.yml'') =
       get_config (sample_env sample_files) False False None
   \<and> get_config (sample_env sample_files) True False None =
       get_config (sample_env sample_files) True True None
   \<and> get_config (sample_env (sample_files(''/usr/etc/pika-cli-config.yml'' := Absent))) False True None =
       get_config (sample_env (sample_files(''/usr/etc/pika-cli-config.yml'' := Absent))) True True None"
proof -
  let ?env = "sample_env sample_files"
  let ?envA = "sample_env (sample_files(''/usr/etc/pika-cli-config.yml'' := Absent))"
  have c: "no_mapping (sample_files ''config.yml'')"
    and u: "no_mapping (sample_files ''/home/u/.config/pika-cli-config.yml'')"
    by (simp_all add: sample_files_def)
  have ec: "no_mapping (files ?env (expanduser ?env ''config.yml''))"
    and eu: "no_mapping (files ?env (conf_usr ?env))"
    and es: "no_mapping (files ?envA (conf_sys ?envA))"
    by (simp_all add: sample_env_def sample_files_def)
  note skipped = missing_or_rootless_file_is_skipped
  have 1: "read_config sample_files (Some ''config.yml'') = Inr (PDict [])"
    using skipped [where fs = sample_files and path = "''config.yml''"] c by blast
  have 2: "get_config ?env False False (Some ''config.yml'') = get_config ?env False False None"
    using skipped [where e = ?env and isys = False and iusr = False and p = "''config.yml''"] ec
    by blast
  have 3: "get_config ?env True False None = get_config ?env True True None"
    using skipped [where e = ?env and isys = True and c = None] eu by blast
  have 4: "get_config ?envA False True None = get_config ?envA True True None"
    using skipped [where e = ?envA and iusr = True and c = None] es by blast
  from c u 1 2 3 4 show ?thesis by (intro conjI)
qed

section \<open>Claims about credentials\<close>

text \<open>
  C4, as stated, fails: \<open>get_creds\<close> reads one line of the password file. With a file
  whose first line is blank and whose second line is \<open>topsecret\<close>, the file gives no
  password, the prompt is invoked, and the password is what was typed there.
\<close>

theorem first_nonblank_line_counterexample:
  "get_creds (\<lambda>path. Inr (CHR 0x0A # ''topsecret'' @ [CHR 0x0A])) (Inr ''typed'')
     \<lparr>username = Some ''alice'', password = None, password_file = Some ''pw.txt''\<rparr> =
   (Inr (Some \<lparr>cred_username = Some ''alice'', cred_password = Some ''typed''\<rparr>), True)"
  by (simp add: get_creds_def read_password_file_def plain_credentials_def strip_def is_space_def)

text \<open>
  C4, amended. With a password-file path given: a failure to open or read the file is
  fatal (\<open>SystemExit\<close> with a message) and the prompt is not invoked; when the first line
  of the file, stripped, is not empty, it becomes the password, the credentials are
  returned and the prompt is not invoked; when the first line is blank, \<open>get_creds\<close>
  goes on as if no password file had been given. With no password file: if the
  username is non-empty and the password is empty or \<open>None\<close>, the prompt is invoked
  and gives the password, and its failure is fatal; otherwise the prompt is not invoked.
  Whenever the file step returns, the credentials returned are absent exactly when
  neither the username nor the password after that step is a non-empty string.
\<close>

theorem credential_resolution:
  "(password_file a = Some path \<and> path \<noteq> [] \<and> opn path = Inl msg \<longrightarrow>
      get_creds opn prompt a =
        (Inl (SystemExit (Message (''Unable to open password file: '' @ msg))), False))
   \<and> (password_file a = Some path \<and> path \<noteq> [] \<and> opn path = Inr contents
        \<and> strip (readline contents) \<noteq> [] \<longrightarrow>
      get_creds opn prompt a =
        (Inr (Some \<lparr>cred_username = username a,
                     cred_password = Some (strip (readline contents))\<rparr>), False))
   \<and> (password_file a = Some path \<and> path \<noteq> [] \<and> opn path = Inr contents
        \<and> strip (readline contents) = [] \<longrightarrow>
      get_creds opn prompt a = get_creds opn prompt (a\<lparr>password_file := None\<rparr>))
   \<and> (\<not> truthy (password_file a) \<and> truthy (username a) \<and> \<not> truthy (password a) \<longrightarrow>
      get_creds opn prompt a =
        (case prompt of
           Inl msg \<Rightarrow> Inl (SystemExit (Message (''Prompt terminated: '' @ msg)))
         | Inr typed \<Rightarrow> Inr (Some \<lparr>cred_username = username a, cred_password = Some typed\<rparr>),
         True))
   \<and> (\<not> truthy (password_file a) \<and> \<not> (truthy (username a) \<and> \<not> truthy (password a)) \<longrightarrow>
      get_creds opn prompt a = (Inr (plain_credentials a), False))
   \<and> (read_password_file opn a = Inr a' \<longrightarrow>
      (fst (get_creds opn prompt a) = Inr None) = (\<not> truthy (username a') \<and> \<not> truthy (password a')))"
proof (intro conjI impI)
  assume "password_file a = Some path \<and> path \<noteq> [] \<and> opn path = Inl msg"
  then show "get_creds opn prompt a =
      (Inl (SystemExit (Message (''Unable to open password file: '' @ msg))), False)"
    by (simp add: get_creds_def read_password_file_def)
next
  assume "password_file a = Some path \<and> path \<noteq> [] \<and> opn path = Inr contents
      \<and> strip (readline contents) \<noteq> []"
  then show "get_creds opn prompt a =
      (Inr (Some \<lparr>cred_username = username a,
                   cred_password = Some (strip (readline contents))\<rparr>), False)"
    by (simp add: get_creds_def read_password_file_def plain_credentials_def)
next
  assume "password_file a = Some path \<and> path \<noteq> [] \<and> opn path = Inr contents
      \<and> strip (readline contents) = []"
  then show "get_creds opn prompt a = get_creds opn prompt (a\<lparr>password_file := None\<rparr>)"
    by (simp add: get_creds_def read_password_file_def plain_credentials_def split: sum.splits)
next
  assume "\<not> truthy (password_file a) \<and> truthy (username a) \<and> \<not> truthy (password a)"
  then show "get_creds opn prompt a =
      (case prompt of
         Inl msg \<Rightarrow> Inl (SystemExit (Message (''Prompt terminated: '' @ msg)))
       | Inr typed \<Rightarrow> Inr (Some \<lparr>cred_username = username a, cred_password = Some typed\<rparr>),
       True)"
    by (cases "password_file a")
      (auto simp: get_creds_def read_password_file_def plain_credentials_def split: sum.splits)
next
  assume "\<not> truthy (password_file a) \<and> \<not> (truthy (username a) \<and> \<not> truthy (password a))"
  then show "get_creds opn prompt a = (Inr (plain_credentials a), False)"
    by (cases "password_file a") (auto simp: get_creds_def read_password_file_def)
next
  assume "read_password_file opn a = Inr a'"
  then show "(fst (get_creds opn prompt a) = Inr None) =
      (\<not> truthy (username a') \<and> \<not> truthy (password a'))"
    by (auto simp: get_creds_def plain_credentials_def split: sum.splits)
qed

theorem credential_resolution_witness:
  "get_creds (\<lambda>path. if path = ''pw.txt'' then Inr (''topsecret'' @ [CHR 0x0A]) else Inl ''No such file'')
      (Inr ''typed'') \<lparr>username = Some ''alice'', password = None, password_file = Some ''pw.txt''\<rparr> =
     (Inr (Some \<lparr>cred_username = Some ''alice'', cred_password = Some ''topsecret''\<rparr>), False)
   \<and> get_creds (\<lambda>path. if path = ''pw.txt'' then Inr (''topsecret'' @ [CHR 0x0A]) else Inl ''No such file'')
      (Inr ''typed'') \<lparr>username = Some ''alice'', password = None, password_file = Some ''nope''\<rparr> =
     (Inl (SystemExit (Message ''Unable to open password file: No such file'')), False)
   \<and> get_creds (\<lambda>path. Inl ''No such file'')
      (Inr ''secret'') \<lparr>username = Some ''alice'', password = None, password_file = None\<rparr> =
     (Inr (Some \<lparr>cred_username = Some ''alice'', cred_password = Some ''secret''\<rparr>), True)
   \<and> get_creds (\<lambda>path. Inl ''No such file'')
      (Inr ''secret'') \<lparr>username = None, password = None, password_file = None\<rparr> =
     (Inr None, False)"
proof -
  let ?opn = "\<lambda>path. if path = ''pw.txt'' then Inr (''topsecret'' @ [CHR 0x0A]) else Inl ''No such file''"
  let ?none = "\<lambda>path::string. Inl ''No such file'' :: string + string"
  let ?alice = "\<lambda>f. \<lparr>username = Some ''alice'', password = None, password_file = f\<rparr>"
  have line: "strip (readline (''topsecret'' @ [CHR 0x0A])) = ''topsecret''"
    by (simp add: strip_def is_space_def)
  have 1: "get_creds ?opn (Inr ''typed'') (?alice (Some ''pw.txt'')) =
      (Inr (Some \<lparr>cred_username = Some ''alice'', cred_password = Some ''topsecret''\<rparr>), False)"
    using credential_resolution [where a = "?alice (Some ''pw.txt'')" and path = "''pw.txt''"
        and opn = ?opn and contents = "''topsecret'' @ [CHR 0x0A]" and prompt = "Inr ''typed''"]
      line by simp
  have 2: "get_creds ?opn (Inr ''typed'') (?alice (Some ''nope'')) =
      (Inl (SystemExit (Message ''Unable to open password file: No such file'')), False)"
    using credential_resolution [where a = "?alice (Some ''nope'')" and path = "''nope''"
        and opn = ?opn and msg = "''No such file''" and prompt = "Inr ''typed''"]
    by simp
  have 3: "get_creds ?none (Inr ''secret'') (?alice None) =
      (Inr (Some \<lparr>cred_username = Some ''alice'', cred_password = Some ''secret''\<rparr>), True)"
    using credential_resolution [where a = "?alice None" and opn = ?none and prompt = "Inr ''secret''"]
    by simp
  have 4: "get_creds ?none (Inr ''secret'')
      \<lparr>username = None, password = None, password_file = None\<rparr> = (Inr None, False)"
    using credential_resolution [where a = "\<lparr>username = None, password = None, password_file = None\<rparr>"
        and opn = ?none and prompt = "Inr ''secret''"]
    by (simp add: plain_credentials_def)
  from 1 2 3 4 show ?thesis by (intro conjI)
qed

section \<open>Claims about the publisher and the consumer\<close>

lemma confirm_callback_exit:
  "exit_status (snd (confirm_callback (Nack tag))) = 1"
  "exit_status (snd (confirm_callback (Ack tag))) = 0"
  by simp_all

text \<open>
  C8. When \<open>channel.basic_publish\<close> returns false, the publisher's \<open>main\<close> logs
  \<open>Unable to publish message\<close> and returns: the process exits with status 0, where the
  claim asks for a non-zero status.
\<close>

theorem publish_failure_exits_zero:
  "publisher_main \<lparr>before_publish = None, basic_publish = Inr False, conn_close = None\<rparr> =
     ([LogError ''Unable to publish message''], None)
   \<and> exit_status (snd (publisher_main
        \<lparr>before_publish = None, basic_publish = Inr False, conn_close = None\<rparr>)) = 0"
  by (simp add: publisher_main_def)

text \<open>
  C10. A body that \<open>json.loads\<close> rejects comes back from \<open>pretty_json\<close> unchanged; a body
  it parses comes back as what \<open>json.dumps\<close> returns for the parsed value with
  \<open>indent=4\<close> and \<open>sort_keys=True\<close>. \<open>pretty_json\<close> is a total function: it never raises.
  When the content type is not \<open>application/json\<close>, \<open>consumer_callback\<close> prints the body
  as it is, whatever the \<open>json\<close> module would do with it; when it is, the body printed is
  the result of \<open>pretty_json\<close>.
\<close>

theorem pretty_json_behaviour:
  "(loads j body = Inl e \<longrightarrow> pretty_json (Some j) body = body)
   \<and> (loads j body = Inr parsed \<and> dumps j parsed 4 True = Inr s \<longrightarrow> pretty_json (Some j) body = s)
   \<and> (content_type h \<noteq> Some ''application/json'' \<longrightarrow>
        consumer_callback json m h body =
          [Print (block_format (metadata m h) ''>'' ''Metadata'' 2),
           Print (block_format body ''>>'' ''Body'' 2),
           BasicAck (delivery_tag m)])
   \<and> (content_type h = Some ''application/json'' \<longrightarrow>
        consumer_callback json m h body =
          [Print (block_format (metadata m h) ''>'' ''Metadata'' 2),
           Print (block_format (pretty_json json body) ''>>'' ''Body'' 2),
           BasicAck (delivery_tag m)])"
  by (simp add: pretty_json_def consumer_callback_def)

theorem pretty_json_behaviour_witness:
  "pretty_json (Some sample_json) ''{not json'' = ''{not json''
   \<and> pretty_json (Some sample_json) ''7'' = ''7''
   \<and> consumer_callback (Some sample_json)
        \<lparr>consumer_tag = ''t'', exchange = ''x'', routing_key = ''k'', delivery_tag = 3,
         redelivered = False\<rparr>
        \<lparr>delivery_mode = Some 2, content_type = Some ''text/plain''\<rparr> ''7'' =
        [Print (block_format (metadata
            \<lparr>consumer_tag = ''t'', exchange = ''x'', routing_key = ''k'', delivery_tag = 3,
             redelivered = False\<rparr>
            \<lparr>delivery_mode = Some 2, content_type = Some ''text/plain''\<rparr>) ''>'' ''Metadata'' 2),
         Print (block_format ''7'' ''>>'' ''Body'' 2),
         BasicAck 3]"
proof -
  let ?m = "\<lparr>consumer_tag = ''t'', exchange = ''x'', routing_key = ''k'', delivery_tag = 3,
         redelivered = False\<rparr>"
  let ?h = "\<lparr>delivery_mode = Some 2, content_type = Some ''text/plain''\<rparr>"
  have l1: "loads sample_json ''{not json'' = Inl (External ''No JSON object could be decoded'')"
    and l2: "loads sample_json ''7'' = Inr 7"
    and d2: "dumps sample_json 7 4 True = Inr ''7''"
    by (simp_all add: sample_json_def)
  have 1: "pretty_json (Some sample_json) ''{not json'' = ''{not json''"
    using pretty_json_behaviour [where j = sample_json and body = "''{not json''"
        and e = "External ''No JSON object could be decoded''"] l1 by blast
  have 2: "pretty_json (Some sample_json) ''7'' = ''7''"
    using pretty_json_behaviour [where j = sample_json and body = "''7''" and parsed = 7
        and s = "''7''"] l2 d2 by blast
  have 3: "consumer_callback (Some sample_json) ?m ?h ''7'' =
      [Print (block_format (metadata ?m ?h) ''>'' ''Metadata'' 2),
       Print (block_format ''7'' ''>>'' ''Body'' 2), BasicAck 3]"
    using pretty_json_behaviour [where json = "Some sample_json" and h = ?h and m = ?m
        and body = "''7''" and j = sample_json and parsed = 7 and s = "''7''"
        and e = "External ''No JSON object could be decoded''"] by simp
  from 1 2 3 show ?thesis by (intro conjI)
qed

end
